theory Spec2Isabelle
  imports Complex_Main
begin

section \<open>Electrical fault diagnosis: the rule-based engine\<close>

text \<open>
  A shallow embedding of \<^verbatim>\<open>static/Electrical.py\<close>. A field of a reading is a
  \<^typ>\<open>real\<close>; the readings the code can receive are those whose fields are
  doubles. Comparisons of a field with a threshold are exact, and the decimal literals
  of the source (0.85, 0.7, 1.5, 0.5) stand for the rationals they denote. Arithmetic
  that rounds (the phase-imbalance check) is computed in double arithmetic: every
  operation rounds to the nearest double, ties to even, and may give an infinity or NaN.
  The derived power quantities are stated in exact arithmetic.
  Exceptions are values: every operation of the source that can raise returns a sum
  with the exception on the left.
\<close>

subsection \<open>Data\<close>

datatype FaultType =
    SHORT_CIRCUIT
  | OPEN_CIRCUIT
  | GROUND_FAULT
  | PHASE_IMBALANCE
  | OVERVOLTAGE
  | UNDERVOLTAGE
  | OVERCURRENT
  | HARMONIC_DISTORTION
  | POWER_FACTOR_LOW
  | NONE

text \<open>The string each member of the enumeration carries (\<^verbatim>\<open>f.value\<close> in the source).\<close>

fun fault_value :: "FaultType \<Rightarrow> string" where
  "fault_value SHORT_CIRCUIT = ''Short Circuit''"
| "fault_value OPEN_CIRCUIT = ''Open Circuit''"
| "fault_value GROUND_FAULT = ''Ground Fault''"
| "fault_value PHASE_IMBALANCE = ''Phase Imbalance''"
| "fault_value OVERVOLTAGE = ''Overvoltage''"
| "fault_value UNDERVOLTAGE = ''Undervoltage''"
| "fault_value OVERCURRENT = ''Overcurrent''"
| "fault_value HARMONIC_DISTORTION = ''Harmonic Distortion''"
| "fault_value POWER_FACTOR_LOW = ''Low Power Factor''"
| "fault_value NONE = ''No Fault''"

record ElectricalReading =
  voltage :: real
  current :: real
  frequency :: real
  power_factor :: real
  phase_a :: real
  phase_b :: real
  phase_c :: real
  temperature :: real

datatype py_error =
    ZeroDivisionError
  | ValueError
  | TypeError
  | AttributeError
  | KeyError
  | IndexError
  | OverflowError

text \<open>
  One entry of the \<^verbatim>\<open>details\<close> list. The source renders each entry with an
  f-string; the model keeps the template (the constructor) and the numbers put into it,
  not the rendered characters.
\<close>

datatype detail =
    VoltageDetail real real real
  | CurrentDetail real real
  | FrequencyDetail real real real
  | PowerFactorDetail real real
  | PhaseImbalanceDetail real real real
  | TemperatureDetail real real

record DiagnosisResult =
  primary_fault :: string
  all_faults :: "string list"
  severity :: string
  confidence :: real
  details :: "detail list"
  action :: string

subsection \<open>Thresholds\<close>

definition VOLTAGE_MIN :: real where "VOLTAGE_MIN = 200"
definition VOLTAGE_MAX :: real where "VOLTAGE_MAX = 250"
definition CURRENT_MAX :: real where "CURRENT_MAX = 30"
definition FREQUENCY_MIN :: real where "FREQUENCY_MIN = 48"
definition FREQUENCY_MAX :: real where "FREQUENCY_MAX = 52"
definition POWER_FACTOR_MIN :: real where "POWER_FACTOR_MIN = 85 / 100"
definition PHASE_IMBALANCE_MAX :: real where "PHASE_IMBALANCE_MAX = 5"
definition TEMPERATURE_MAX :: real where "TEMPERATURE_MAX = 80"

subsection \<open>Double arithmetic\<close>

text \<open>
  A Python float: a finite double, an infinity or NaN. The sign of a zero is not kept;
  nothing below depends on it.
\<close>

datatype pyfloat = Finite real | PosInf | NegInf | NaN

text \<open>Rounding to an integer, ties to the even neighbour.\<close>

definition round_half_even :: "real \<Rightarrow> int" where
  "round_half_even x =
     (let f = \<lfloor>x\<rfloor>; d = x - of_int f
      in if d < 1 / 2 then f
         else if d > 1 / 2 then f + 1
         else if even f then f else f + 1)"

definition pow2 :: "int \<Rightarrow> real" where
  "pow2 e = (if 0 \<le> e then 2 ^ nat e else 1 / 2 ^ nat (- e))"

text \<open>
  The binary exponent of a double near \<open>x\<close>: the largest \<open>e\<close> in [-1022, 1023] with
  \<open>2\<^sup>e \<le> |x|\<close>, found by searching down from 1023, and -1022 for the subnormal range.
\<close>

fun search_exponent :: "nat \<Rightarrow> int \<Rightarrow> real \<Rightarrow> int" where
  "search_exponent 0 e x = e"
| "search_exponent (Suc n) e x = (if pow2 e \<le> x then e else search_exponent n (e - 1) x)"

definition double_exponent :: "real \<Rightarrow> int" where
  "double_exponent x = search_exponent 2045 1023 \<bar>x\<bar>"

text \<open>
  The double nearest to a real: 53 significant bits at the exponent of \<open>x\<close>, ties to
  even, and an infinity when the rounded magnitude reaches \<open>2\<^sup>1\<^sup>0\<^sup>2\<^sup>4\<close>.
\<close>

definition round_double :: "real \<Rightarrow> pyfloat" where
  "round_double x =
     (let q = pow2 (double_exponent x - 52);
          y = of_int (round_half_even (x / q)) * q
      in if y \<ge> pow2 1024 then PosInf
         else if y \<le> - pow2 1024 then NegInf
         else Finite y)"

definition is_double :: "real \<Rightarrow> bool" where
  "is_double x = (round_double x = Finite x)"

definition signed_inf :: "bool \<Rightarrow> pyfloat" where
  "signed_inf positive = (if positive then PosInf else NegInf)"

fun is_positive :: "pyfloat \<Rightarrow> bool" where
  "is_positive (Finite x) = (0 < x)"
| "is_positive PosInf = True"
| "is_positive NegInf = False"
| "is_positive NaN = False"

fun py_neg :: "pyfloat \<Rightarrow> pyfloat" where
  "py_neg (Finite x) = Finite (- x)"
| "py_neg PosInf = NegInf"
| "py_neg NegInf = PosInf"
| "py_neg NaN = NaN"

fun py_add :: "pyfloat \<Rightarrow> pyfloat \<Rightarrow> pyfloat" where
  "py_add (Finite x) (Finite y) = round_double (x + y)"
| "py_add NaN b = NaN"
| "py_add a NaN = NaN"
| "py_add PosInf NegInf = NaN"
| "py_add NegInf PosInf = NaN"
| "py_add PosInf b = PosInf"
| "py_add a PosInf = PosInf"
| "py_add NegInf b = NegInf"
| "py_add a NegInf = NegInf"

definition py_sub :: "pyfloat \<Rightarrow> pyfloat \<Rightarrow> pyfloat" where
  "py_sub a b = py_add a (py_neg b)"

fun py_mul :: "pyfloat \<Rightarrow> pyfloat \<Rightarrow> pyfloat" where
  "py_mul (Finite x) (Finite y) = round_double (x * y)"
| "py_mul NaN b = NaN"
| "py_mul a NaN = NaN"
| "py_mul (Finite x) b = (if x = 0 then NaN else signed_inf ((0 < x) = is_positive b))"
| "py_mul a (Finite y) = (if y = 0 then NaN else signed_inf (is_positive a = (0 < y)))"
| "py_mul a b = signed_inf (is_positive a = is_positive b)"

text \<open>
  Division of doubles by a divisor that is not zero: a finite number over an infinity is
  zero, an infinity over a finite number is an infinity, an infinity over an infinity is
  NaN.
\<close>

fun float_div :: "pyfloat \<Rightarrow> pyfloat \<Rightarrow> pyfloat" where
  "float_div (Finite x) (Finite y) = round_double (x / y)"
| "float_div NaN b = NaN"
| "float_div a NaN = NaN"
| "float_div (Finite x) b = Finite 0"
| "float_div a (Finite y) = signed_inf (is_positive a = (0 < y))"
| "float_div a b = NaN"

text \<open>Python's \<^verbatim>\<open>/\<close> on floats: a zero divisor raises.\<close>

definition py_truediv :: "pyfloat \<Rightarrow> pyfloat \<Rightarrow> py_error + pyfloat" where
  "py_truediv a b = (if b = Finite 0 then Inl ZeroDivisionError else Inr (float_div a b))"

fun py_abs :: "pyfloat \<Rightarrow> pyfloat" where
  "py_abs (Finite x) = Finite \<bar>x\<bar>"
| "py_abs PosInf = PosInf"
| "py_abs NegInf = PosInf"
| "py_abs NaN = NaN"

text \<open>\<^verbatim>\<open>a > b\<close>: every comparison with NaN is false.\<close>

fun py_gt :: "pyfloat \<Rightarrow> pyfloat \<Rightarrow> bool" where
  "py_gt (Finite x) (Finite y) = (x > y)"
| "py_gt NaN b = False"
| "py_gt a NaN = False"
| "py_gt PosInf PosInf = False"
| "py_gt PosInf b = True"
| "py_gt a PosInf = False"
| "py_gt NegInf b = False"
| "py_gt a NegInf = True"

text \<open>
  \<^verbatim>\<open>max\<close> keeps its first argument unless a later one compares greater, so
  \<^verbatim>\<open>max(a, b, c)\<close> is \<open>py_max (py_max a b) c\<close>.
\<close>

definition py_max :: "pyfloat \<Rightarrow> pyfloat \<Rightarrow> pyfloat" where
  "py_max a b = (if py_gt b a then b else a)"

subsection \<open>The checks\<close>

definition check_voltage :: "real \<Rightarrow> FaultType option" where
  "check_voltage v =
     (if v > VOLTAGE_MAX then Some OVERVOLTAGE
      else if v < VOLTAGE_MIN then Some UNDERVOLTAGE
      else None)"

definition check_current :: "real \<Rightarrow> FaultType option" where
  "check_current c = (if c > CURRENT_MAX then Some OVERCURRENT else None)"

definition check_frequency :: "real \<Rightarrow> FaultType option" where
  "check_frequency f =
     (if f < FREQUENCY_MIN \<or> f > FREQUENCY_MAX then Some HARMONIC_DISTORTION else None)"

definition check_power_factor :: "real \<Rightarrow> FaultType option" where
  "check_power_factor pf = (if pf < POWER_FACTOR_MIN then Some POWER_FACTOR_LOW else None)"

text \<open>
  The phase-imbalance check. The phase voltages enter as doubles; the integer constants
  3, 100 and 5 convert exactly.
\<close>

definition check_phase_imbalance :: "real \<Rightarrow> real \<Rightarrow> real \<Rightarrow> py_error + FaultType option" where
  "check_phase_imbalance va vb vc =
     (case py_truediv (py_add (py_add (Finite va) (Finite vb)) (Finite vc)) (Finite 3) of
        Inl e \<Rightarrow> Inl e
      | Inr avg_voltage \<Rightarrow>
          if avg_voltage = Finite 0 then Inr None
          else
            (case py_truediv (py_sub (Finite va) avg_voltage) avg_voltage of
               Inl e \<Rightarrow> Inl e
             | Inr qa \<Rightarrow>
                 (case py_truediv (py_sub (Finite vb) avg_voltage) avg_voltage of
                    Inl e \<Rightarrow> Inl e
                  | Inr qb \<Rightarrow>
                      (case py_truediv (py_sub (Finite vc) avg_voltage) avg_voltage of
                         Inl e \<Rightarrow> Inl e
                       | Inr qc \<Rightarrow>
                           (let imbalance_a = py_mul (py_abs qa) (Finite 100);
                                imbalance_b = py_mul (py_abs qb) (Finite 100);
                                imbalance_c = py_mul (py_abs qc) (Finite 100);
                                max_imbalance = py_max (py_max imbalance_a imbalance_b) imbalance_c
                            in if py_gt max_imbalance (Finite PHASE_IMBALANCE_MAX)
                               then Inr (Some PHASE_IMBALANCE)
                               else Inr None)))))"

definition check_temperature :: "real \<Rightarrow> FaultType option" where
  "check_temperature t = (if t > TEMPERATURE_MAX then Some OVERCURRENT else None)"

subsection \<open>Severity, confidence, action\<close>

definition severity_map :: "FaultType \<rightharpoonup> string" where
  "severity_map =
     [SHORT_CIRCUIT \<mapsto> ''Critical'',
      GROUND_FAULT \<mapsto> ''Critical'',
      OVERCURRENT \<mapsto> ''High'',
      OVERVOLTAGE \<mapsto> ''High'',
      PHASE_IMBALANCE \<mapsto> ''Medium'',
      POWER_FACTOR_LOW \<mapsto> ''Low'']"

text \<open>The \<^verbatim>\<open>for fault in faults\<close> loop with its fall-through \<^verbatim>\<open>return "Medium"\<close>.\<close>

fun severity_scan :: "FaultType list \<Rightarrow> string" where
  "severity_scan [] = ''Medium''"
| "severity_scan (fault # rest) =
     (case severity_map fault of Some s \<Rightarrow> s | None \<Rightarrow> severity_scan rest)"

definition calculate_severity :: "ElectricalReading \<Rightarrow> FaultType list \<Rightarrow> string" where
  "calculate_severity reading faults =
     (if faults = [] \<or> NONE \<in> set faults then ''None''
      else if length faults \<ge> 3 then ''Critical''
      else severity_scan faults)"

definition calculate_confidence :: "ElectricalReading \<Rightarrow> real" where
  "calculate_confidence reading =
     (let c0 = 100;
          c1 = (if voltage reading > VOLTAGE_MAX * (15 / 10) \<or> voltage reading < VOLTAGE_MIN * (5 / 10)
                then c0 - 10 else c0);
          c2 = (if current reading > CURRENT_MAX * (15 / 10) then c1 - 10 else c1);
          c3 = (if power_factor reading < 7 / 10 then c2 - 15 else c2)
      in max 0 (min 100 c3))"

fun recommend_action :: "FaultType \<Rightarrow> string" where
  "recommend_action SHORT_CIRCUIT =
     ''IMMEDIATE ACTION: Isolate circuit and check for damaged wiring or components.''"
| "recommend_action OPEN_CIRCUIT = ''Check continuity and repair broken connections.''"
| "recommend_action GROUND_FAULT =
     ''Isolate system and test insulation resistance. Repair grounding issues.''"
| "recommend_action PHASE_IMBALANCE =
     ''Check load distribution across phases and rebalance if necessary.''"
| "recommend_action OVERVOLTAGE = ''Check voltage regulator and power supply settings.''"
| "recommend_action UNDERVOLTAGE = ''Verify power supply and transformer settings.''"
| "recommend_action OVERCURRENT =
     ''Reduce load or check for short circuits. Verify circuit breaker rating.''"
| "recommend_action HARMONIC_DISTORTION =
     ''Install harmonic filters or upgrade power quality equipment.''"
| "recommend_action POWER_FACTOR_LOW = ''Install power factor correction capacitors.''"
| "recommend_action NONE = ''System operating normally.''"

subsection \<open>The diagnosis\<close>

text \<open>
  The step the source repeats after each check: when the check returned a fault, append
  it to \<^verbatim>\<open>faults\<close> and its line to \<^verbatim>\<open>details\<close>. Every member of the
  enumeration is truthy, so \<^verbatim>\<open>if fault:\<close> tests for \<^verbatim>\<open>None\<close> only.
\<close>

definition note_fault ::
  "FaultType option \<Rightarrow> detail \<Rightarrow> FaultType list \<times> detail list \<Rightarrow> FaultType list \<times> detail list"
where
  "note_fault fault d acc =
     (case fault of
        None \<Rightarrow> acc
      | Some f \<Rightarrow> (fst acc @ [f], snd acc @ [d]))"

definition diagnose :: "ElectricalReading \<Rightarrow> py_error + DiagnosisResult" where
  "diagnose reading =
     (let acc0 = ([], []);
          acc1 = note_fault (check_voltage (voltage reading))
                   (VoltageDetail (voltage reading) VOLTAGE_MIN VOLTAGE_MAX) acc0;
          acc2 = note_fault (check_current (current reading))
                   (CurrentDetail (current reading) CURRENT_MAX) acc1;
          acc3 = note_fault (check_frequency (frequency reading))
                   (FrequencyDetail (frequency reading) FREQUENCY_MIN FREQUENCY_MAX) acc2;
          acc4 = note_fault (check_power_factor (power_factor reading))
                   (PowerFactorDetail (power_factor reading) POWER_FACTOR_MIN) acc3
      in case check_phase_imbalance (phase_a reading) (phase_b reading) (phase_c reading) of
           Inl e \<Rightarrow> Inl e
         | Inr imbalance_fault \<Rightarrow>
             (let acc5 = note_fault imbalance_fault
                           (PhaseImbalanceDetail (phase_a reading) (phase_b reading) (phase_c reading))
                           acc4;
                  acc6 = note_fault (check_temperature (temperature reading))
                           (TemperatureDetail (temperature reading) TEMPERATURE_MAX) acc5;
                  faults = fst acc6;
                  primary = (case faults of [] \<Rightarrow> NONE | f # _ \<Rightarrow> f)
              in Inr \<lparr> primary_fault = fault_value primary,
                       all_faults = map fault_value faults,
                       severity = calculate_severity reading faults,
                       confidence = calculate_confidence reading,
                       details = snd acc6,
                       action = recommend_action primary \<rparr>))"

subsection \<open>Derived power quantities\<close>

definition calculate_power :: "real \<Rightarrow> real \<Rightarrow> real \<Rightarrow> real" where
  "calculate_power v c pf = v * c * pf"

definition calculate_apparent_power :: "real \<Rightarrow> real \<Rightarrow> real" where
  "calculate_apparent_power v c = v * c"

text \<open>\<^verbatim>\<open>math.sqrt\<close> raises ValueError (math domain error) below zero.\<close>

definition math_sqrt :: "real \<Rightarrow> py_error + real" where
  "math_sqrt x = (if x < 0 then Inl ValueError else Inr (sqrt x))"

definition calculate_reactive_power :: "real \<Rightarrow> real \<Rightarrow> real \<Rightarrow> py_error + real" where
  "calculate_reactive_power v c pf =
     (case math_sqrt (1 - pf ^ 2) of
        Inl e \<Rightarrow> Inl e
      | Inr sin_phi \<Rightarrow> Inr (v * c * sin_phi))"

definition create_sample_reading :: ElectricalReading where
  "create_sample_reading =
     \<lparr> voltage = 230, current = 155 / 10, frequency = 50, power_factor = 92 / 100,
       phase_a = 2305 / 10, phase_b = 2298 / 10, phase_c = 2302 / 10,
       temperature = 455 / 10 \<rparr>"

section \<open>The rule-based engine, restated\<close>

text \<open>
  Closed forms of what the checks and the diagnosis compute, with the thresholds written
  out. They are compared with the definitions above in the section on properties.
\<close>

definition fault_list :: "FaultType option \<Rightarrow> FaultType list" where
  "fault_list fo = (case fo of None \<Rightarrow> [] | Some f \<Rightarrow> [f])"

text \<open>
  The phase-imbalance rule in closed form, in the double arithmetic of the code: the
  average as computed, the percentage deviation of a phase from it as computed, and the
  rule that the computed average is not zero and the largest computed deviation is
  above 5. The check computes a deviation only when the computed average is not zero.
\<close>

definition computed_average :: "real \<Rightarrow> real \<Rightarrow> real \<Rightarrow> pyfloat" where
  "computed_average va vb vc =
     float_div (py_add (py_add (Finite va) (Finite vb)) (Finite vc)) (Finite 3)"

definition computed_deviation :: "real \<Rightarrow> pyfloat \<Rightarrow> pyfloat" where
  "computed_deviation v avg =
     py_mul (py_abs (float_div (py_sub (Finite v) avg) avg)) (Finite 100)"

definition imbalance_fires :: "real \<Rightarrow> real \<Rightarrow> real \<Rightarrow> bool" where
  "imbalance_fires va vb vc =
     (let avg = computed_average va vb vc
      in avg \<noteq> Finite 0 \<and>
         py_gt (py_max (py_max (computed_deviation va avg) (computed_deviation vb avg))
                  (computed_deviation vc avg))
               (Finite 5))"

text \<open>The faults in the order of the checks: voltage, current, frequency, power factor,
  phase imbalance, temperature.\<close>

definition triggered :: "ElectricalReading \<Rightarrow> FaultType list" where
  "triggered r =
     (if voltage r > 250 then [OVERVOLTAGE] else if voltage r < 200 then [UNDERVOLTAGE] else [])
     @ (if current r > 30 then [OVERCURRENT] else [])
     @ (if frequency r < 48 \<or> frequency r > 52 then [HARMONIC_DISTORTION] else [])
     @ (if power_factor r < 85 / 100 then [POWER_FACTOR_LOW] else [])
     @ (if imbalance_fires (phase_a r) (phase_b r) (phase_c r) then [PHASE_IMBALANCE] else [])
     @ (if temperature r > 80 then [OVERCURRENT] else [])"

text \<open>
  The severity rule in the words of the specification, over the strings of
  \<^verbatim>\<open>all_faults\<close>: a priority table, the first listed fault found in it, and
  Critical for three or more \<^emph>\<open>distinct\<close> faults.
\<close>

definition spec_priority_table :: "(string \<times> string) list" where
  "spec_priority_table =
     [(''Short Circuit'', ''Critical''), (''Ground Fault'', ''Critical''),
      (''Overcurrent'', ''High''), (''Overvoltage'', ''High''),
      (''Phase Imbalance'', ''Medium''), (''Low Power Factor'', ''Low'')]"

fun spec_first_in_table :: "string list \<Rightarrow> string" where
  "spec_first_in_table [] = ''Medium''"
| "spec_first_in_table (f # fs) =
     (case map_of spec_priority_table f of Some s \<Rightarrow> s | None \<Rightarrow> spec_first_in_table fs)"

definition spec_severity :: "string list \<Rightarrow> string" where
  "spec_severity fs =
     (if fs = [] then ''None''
      else if 3 \<le> length (remdups fs) then ''Critical''
      else spec_first_in_table fs)"

text \<open>The same rule with the length of the list in place of the number of distinct faults.\<close>

definition entries_severity :: "string list \<Rightarrow> string" where
  "entries_severity fs =
     (if fs = [] then ''None''
      else if 3 \<le> length fs then ''Critical''
      else spec_first_in_table fs)"

text \<open>The confidence rule in the words of the specification.\<close>

definition spec_confidence :: "real \<Rightarrow> real \<Rightarrow> real \<Rightarrow> real" where
  "spec_confidence v c pf =
     max 0 (min 100
       (100 - (if v > 375 \<or> v < 100 then 10 else 0)
            - (if c > 45 then 10 else 0)
            - (if pf < 7 / 10 then 15 else 0)))"

text \<open>
  A phase voltage within 5 percent of the average of the three, in exact arithmetic, and
  the same with the deviation as the code computes it.
\<close>

definition phase_average :: "ElectricalReading \<Rightarrow> real" where
  "phase_average r = (phase_a r + phase_b r + phase_c r) / 3"

definition within_5_percent :: "real \<Rightarrow> real \<Rightarrow> bool" where
  "within_5_percent v avg = (\<bar>v - avg\<bar> \<le> 5 / 100 * \<bar>avg\<bar>)"

definition computed_within_5_percent :: "real \<Rightarrow> pyfloat \<Rightarrow> bool" where
  "computed_within_5_percent v avg = (\<not> py_gt (computed_deviation v avg) (Finite 5))"

section \<open>The statistical endpoint\<close>

text \<open>
  The handler of \<^verbatim>\<open>/api/diagnose\<close> in \<^verbatim>\<open>app.py\<close>. The request body is a
  JSON document as Python's decoder returns it: an integer literal is an unbounded
  \<^verbatim>\<open>int\<close>, any other number a float. The scaler and the classifier enter as a
  record of functions that may raise. Python's conversion of a string to a float is a
  parameter. The handler's effects (calls of the scaler and the classifier, the row
  written to the database) are returned as a list of events beside the response, so that
  what happened before a failure stays visible. The \<^verbatim>\<open>login_required\<close> decorator
  and failures of the database are not modelled.
\<close>

datatype json =
    JNull
  | JBool bool
  | JInt int
  | JFloat pyfloat
  | JStr string
  | JArr "json list"
  | JObj "(string \<times> json) list"


text \<open>
  \<^verbatim>\<open>float(x)\<close>: a float converts to itself, an integer to the nearest double
  (OverflowError beyond the range of doubles), a boolean to 1 or 0, a string is parsed
  (ValueError when it is no float literal; the literals for infinities and NaN are
  accepted), and null, a list or an object raise TypeError.
\<close>

fun py_float :: "(string \<Rightarrow> pyfloat option) \<Rightarrow> json \<Rightarrow> py_error + pyfloat" where
  "py_float str_to_float JNull = Inl TypeError"
| "py_float str_to_float (JBool b) = Inr (Finite (if b then 1 else 0))"
| "py_float str_to_float (JInt i) =
     (case round_double (of_int i) of
        Finite x \<Rightarrow> Inr (Finite x)
      | _ \<Rightarrow> Inl OverflowError)"
| "py_float str_to_float (JFloat x) = Inr x"
| "py_float str_to_float (JStr s) =
     (case str_to_float s of None \<Rightarrow> Inl ValueError | Some x \<Rightarrow> Inr x)"
| "py_float str_to_float (JArr xs) = Inl TypeError"
| "py_float str_to_float (JObj kvs) = Inl TypeError"










subsection \<open>The endpoint, restated\<close>



subsection \<open>The scaler and the classifier\<close>












section \<open>Readings and requests used as examples\<close>

definition reading_overvoltage :: ElectricalReading where
  "reading_overvoltage =
     \<lparr> voltage = 260, current = 15, frequency = 50, power_factor = 95 / 100,
       phase_a = 230, phase_b = 230, phase_c = 230, temperature = 40 \<rparr>"

definition reading_repeated :: ElectricalReading where
  "reading_repeated =
     \<lparr> voltage = 260, current = 35, frequency = 50, power_factor = 95 / 100,
       phase_a = 230, phase_b = 230, phase_c = 230, temperature = 90 \<rparr>"

definition reading_zero_average :: ElectricalReading where
  "reading_zero_average =
     \<lparr> voltage = 230, current = 15, frequency = 50, power_factor = 95 / 100,
       phase_a = 100, phase_b = - 50, phase_c = - 50, temperature = 40 \<rparr>"

definition reading_hot :: ElectricalReading where
  "reading_hot =
     \<lparr> voltage = 230, current = 155 / 10, frequency = 60, power_factor = 92 / 100,
       phase_a = 200, phase_b = 230, phase_c = 260, temperature = 90 \<rparr>"

definition reading_nominal :: ElectricalReading where
  "reading_nominal =
     \<lparr> voltage = 230, current = 15, frequency = 50, power_factor = 1,
       phase_a = 229, phase_b = 230, phase_c = 231, temperature = 40 \<rparr>"

definition reading_boundary :: ElectricalReading where
  "reading_boundary =
     \<lparr> voltage = 230, current = 15, frequency = 50, power_factor = 1,
       phase_a = 200, phase_b = 203, phase_c = 217, temperature = 40 \<rparr>"





section \<open>Properties\<close>

lemmas thresholds =
  VOLTAGE_MIN_def VOLTAGE_MAX_def CURRENT_MAX_def FREQUENCY_MIN_def FREQUENCY_MAX_def
  POWER_FACTOR_MIN_def PHASE_IMBALANCE_MAX_def TEMPERATURE_MAX_def

lemmas checks =
  check_voltage_def check_current_def check_frequency_def check_power_factor_def
  check_temperature_def

subsection \<open>Double arithmetic\<close>

lemma pow2_powr: "pow2 e = 2 powr (of_int e)"
proof (cases "0 \<le> e")
  case True
  then have "(2::real) powr (of_int e) = 2 powr (real (nat e))" by simp
  also have "\<dots> = 2 ^ nat e" by (simp add: powr_realpow)
  finally show ?thesis using True by (simp add: pow2_def)
next
  case False
  then have "(2::real) powr (of_int e) = 2 powr (- real (nat (- e)))" by simp
  also have "\<dots> = 1 / 2 powr (real (nat (- e)))" by (simp only: powr_minus_divide)
  also have "\<dots> = 1 / 2 ^ nat (- e)" by (simp add: powr_realpow)
  finally show ?thesis using False by (simp add: pow2_def)
qed

lemma pow2_pos: "0 < pow2 e"
  by (simp add: pow2_powr)

lemma pow2_mono: "e1 \<le> e2 \<Longrightarrow> pow2 e1 \<le> pow2 e2"
  by (simp add: pow2_powr powr_mono)

lemma search_exponent_eq:
  "e \<le> e0 \<Longrightarrow> nat (e0 - e) \<le> n \<Longrightarrow> pow2 e \<le> x \<Longrightarrow> x < pow2 (e + 1)
     \<Longrightarrow> search_exponent n e0 x = e"
proof (induction n arbitrary: e0)
  case 0
  then show ?case by simp
next
  case (Suc n)
  show ?case
  proof (cases "e0 = e")
    case True
    with Suc.prems show ?thesis by simp
  next
    case False
    with Suc.prems have lt: "e + 1 \<le> e0" by simp
    then have "pow2 (e + 1) \<le> pow2 e0" by (rule pow2_mono)
    with Suc.prems have "\<not> pow2 e0 \<le> x" by simp
    moreover have "search_exponent n (e0 - 1) x = e"
      using Suc.prems lt by (intro Suc.IH) simp_all
    ultimately show ?thesis by simp
  qed
qed

lemma double_exponent_eq:
  assumes "- 1022 \<le> e" and "e \<le> 1023" and "pow2 e \<le> \<bar>x\<bar>" and "\<bar>x\<bar> < pow2 (e + 1)"
  shows "double_exponent x = e"
  unfolding double_exponent_def using assms by (intro search_exponent_eq) simp_all

lemma search_exponent_low:
  "x < pow2 (e0 - int n + 1) \<Longrightarrow> search_exponent n e0 x = e0 - int n"
proof (induction n arbitrary: e0)
  case 0
  then show ?case by simp
next
  case (Suc n)
  have "pow2 (e0 - int (Suc n) + 1) \<le> pow2 e0" by (rule pow2_mono) simp
  with Suc.prems have "\<not> pow2 e0 \<le> x" by simp
  moreover have "search_exponent n (e0 - 1) x = e0 - 1 - int n"
    using Suc.prems by (intro Suc.IH) (simp add: algebra_simps)
  ultimately show ?case by simp
qed

lemma double_exponent_subnormal:
  assumes "\<bar>x\<bar> < pow2 (- 1021)"
  shows "double_exponent x = - 1022"
  unfolding double_exponent_def using assms search_exponent_low [of "\<bar>x\<bar>" 1023 2045] by simp

lemma round_double_eval:
  assumes "- 1022 \<le> e" and "e \<le> 1023" and "pow2 e \<le> \<bar>x\<bar>" and "\<bar>x\<bar> < pow2 (e + 1)"
    and "y = of_int (round_half_even (x / pow2 (e - 52))) * pow2 (e - 52)"
    and "\<bar>y\<bar> < pow2 1024"
  shows "round_double x = Finite y"
proof -
  have e: "double_exponent x = e" using assms(1-4) by (rule double_exponent_eq)
  from assms(6) have "\<not> pow2 1024 \<le> y" and "\<not> y \<le> - pow2 1024" by linarith+
  then show ?thesis
    unfolding round_double_def Let_def e assms(5) [symmetric] by simp
qed

lemma round_double_0: "round_double 0 = Finite 0"
proof -
  have "\<not> pow2 1024 \<le> 0" and "\<not> 0 \<le> - pow2 1024"
    using pow2_pos [of 1024] by linarith+
  then show ?thesis
    by (simp add: round_double_def round_half_even_def Let_def)
qed

lemma round_half_even_minus: "round_half_even (- x) = - round_half_even x"
proof (cases "x = of_int \<lfloor>x\<rfloor>")
  case True
  then obtain k where k: "x = of_int k" ..
  show ?thesis unfolding k
    by (simp add: round_half_even_def flip: of_int_minus)
next
  case False
  then have f: "\<lfloor>- x\<rfloor> = - \<lfloor>x\<rfloor> - 1"
    by (simp add: floor_minus ceiling_altdef)
  have lo: "of_int \<lfloor>x\<rfloor> < x" using False of_int_floor_le [of x] by linarith
  have hi: "x < of_int \<lfloor>x\<rfloor> + 1" by linarith
  show ?thesis
    unfolding round_half_even_def Let_def f using lo hi
    by (auto simp: field_simps)
qed

lemma double_exponent_minus: "double_exponent (- x) = double_exponent x"
  by (simp add: double_exponent_def)

lemma is_double_minus: "is_double x \<Longrightarrow> is_double (- x)"
  unfolding is_double_def round_double_def Let_def double_exponent_minus
  by (simp add: round_half_even_minus split: if_splits)

lemma doubles_used:
  "is_double 200" "is_double 203" "is_double 217" "is_double 230" "is_double 15"
  "is_double 50" "is_double 1" "is_double 40" "is_double 100" "is_double (- 50)"
  "is_double 60" "is_double 5" "is_double 231" "is_double 229"
proof -
  show "is_double 229" unfolding is_double_def
    by (rule round_double_eval [where e = 7]) (simp_all add: pow2_def round_half_even_def Let_def)
  show "is_double 60" unfolding is_double_def
    by (rule round_double_eval [where e = 5]) (simp_all add: pow2_def round_half_even_def Let_def)
  show "is_double 5" unfolding is_double_def
    by (rule round_double_eval [where e = 2]) (simp_all add: pow2_def round_half_even_def Let_def)
  show "is_double 231" unfolding is_double_def
    by (rule round_double_eval [where e = 7]) (simp_all add: pow2_def round_half_even_def Let_def)
  show "is_double 200" unfolding is_double_def
    by (rule round_double_eval [where e = 7]) (simp_all add: pow2_def round_half_even_def Let_def)
  show "is_double 203" unfolding is_double_def
    by (rule round_double_eval [where e = 7]) (simp_all add: pow2_def round_half_even_def Let_def)
  show "is_double 217" unfolding is_double_def
    by (rule round_double_eval [where e = 7]) (simp_all add: pow2_def round_half_even_def Let_def)
  show "is_double 230" unfolding is_double_def
    by (rule round_double_eval [where e = 7]) (simp_all add: pow2_def round_half_even_def Let_def)
  show "is_double 15" unfolding is_double_def
    by (rule round_double_eval [where e = 3]) (simp_all add: pow2_def round_half_even_def Let_def)
  show "is_double 50" unfolding is_double_def
    by (rule round_double_eval [where e = 5]) (simp_all add: pow2_def round_half_even_def Let_def)
  show "is_double 1" unfolding is_double_def
    by (rule round_double_eval [where e = 0]) (simp_all add: pow2_def round_half_even_def Let_def)
  show "is_double 40" unfolding is_double_def
    by (rule round_double_eval [where e = 5]) (simp_all add: pow2_def round_half_even_def Let_def)
  show "is_double 100" unfolding is_double_def
    by (rule round_double_eval [where e = 6]) (simp_all add: pow2_def round_half_even_def Let_def)
  then show "is_double (- 50)"
    using is_double_minus [of 50] \<open>is_double 50\<close> by simp
qed

text \<open>The check's arithmetic at the phase voltages of the examples.\<close>

lemma phases_boundary:
  "computed_average 200 203 217 = Finite (7271436898358613 / 35184372088832)"
  "computed_deviation 200 (Finite (7271436898358613 / 35184372088832)) = Finite (7263870366726597 / 2251799813685248)"
  "computed_deviation 203 (Finite (7271436898358613 / 35184372088832)) = Finite (7990257403399247 / 4503599627370496)"
  "computed_deviation 217 (Finite (7271436898358613 / 35184372088832)) = Finite (2814749767106563 / 562949953421312)"
proof -
  have r1: "round_double 403 = Finite 403"
    by (rule round_double_eval [where e = "8"])
       (simp_all add: pow2_def round_half_even_def Let_def)
  have r2: "round_double 620 = Finite 620"
    by (rule round_double_eval [where e = "9"])
       (simp_all add: pow2_def round_half_even_def Let_def)
  have r3: "round_double (620 / 3) = Finite (7271436898358613 / 35184372088832)"
    by (rule round_double_eval [where e = "7"])
       (simp_all add: pow2_def round_half_even_def Let_def)
  have r4: "round_double (- (234562480592213 / 35184372088832)) = Finite (- (234562480592213 / 35184372088832))"
    by (rule round_double_eval [where e = "2"])
       (simp_all add: pow2_def round_half_even_def Let_def)
  have r5: "round_double (- (234562480592213 / 7271436898358613)) = Finite (- (2324438517352511 / 72057594037927936))"
    by (rule round_double_eval [where e = "- 5"])
       (simp_all add: pow2_def round_half_even_def Let_def)
  have r6: "round_double (58110962933812775 / 18014398509481984) = Finite (7263870366726597 / 2251799813685248)"
    by (rule round_double_eval [where e = "1"])
       (simp_all add: pow2_def round_half_even_def Let_def)
  have r7: "round_double (- (129009364325717 / 35184372088832)) = Finite (- (129009364325717 / 35184372088832))"
    by (rule round_double_eval [where e = "1"])
       (simp_all add: pow2_def round_half_even_def Let_def)
  have r8: "round_double (- (129009364325717 / 7271436898358613)) = Finite (- (2556882369087759 / 144115188075855872))"
    by (rule round_double_eval [where e = "- 6"])
       (simp_all add: pow2_def round_half_even_def Let_def)
  have r9: "round_double (63922059227193975 / 36028797018963968) = Finite (7990257403399247 / 4503599627370496)"
    by (rule round_double_eval [where e = "0"])
       (simp_all add: pow2_def round_half_even_def Let_def)
  have r10: "round_double (363571844917931 / 35184372088832) = Finite (363571844917931 / 35184372088832)"
    by (rule round_double_eval [where e = "3"])
       (simp_all add: pow2_def round_half_even_def Let_def)
  have r11: "round_double (363571844917931 / 7271436898358613) = Finite (7205759403792801 / 144115188075855872)"
    by (rule round_double_eval [where e = "- 5"])
       (simp_all add: pow2_def round_half_even_def Let_def)
  have r12: "round_double (180143985094820025 / 36028797018963968) = Finite (2814749767106563 / 562949953421312)"
    by (rule round_double_eval [where e = "2"])
       (simp_all add: pow2_def round_half_even_def Let_def)
  show "computed_average 200 203 217 = Finite (7271436898358613 / 35184372088832)"
    by (simp add: computed_average_def round_double_0 r1 r2 r3 r4 r5 r6 r7 r8 r9 r10 r11 r12)
  show "computed_deviation 200 (Finite (7271436898358613 / 35184372088832)) = Finite (7263870366726597 / 2251799813685248)"
    by (simp add: computed_deviation_def py_sub_def round_double_0 r1 r2 r3 r4 r5 r6 r7 r8 r9 r10 r11 r12)
  show "computed_deviation 203 (Finite (7271436898358613 / 35184372088832)) = Finite (7990257403399247 / 4503599627370496)"
    by (simp add: computed_deviation_def py_sub_def round_double_0 r1 r2 r3 r4 r5 r6 r7 r8 r9 r10 r11 r12)
  show "computed_deviation 217 (Finite (7271436898358613 / 35184372088832)) = Finite (2814749767106563 / 562949953421312)"
    by (simp add: computed_deviation_def py_sub_def round_double_0 r1 r2 r3 r4 r5 r6 r7 r8 r9 r10 r11 r12)
qed

lemma phases_equal:
  "computed_average 230 230 230 = Finite 230"
  "computed_deviation 230 (Finite 230) = Finite 0"
proof -
  have r1: "round_double 460 = Finite 460"
    by (rule round_double_eval [where e = "8"])
       (simp_all add: pow2_def round_half_even_def Let_def)
  have r2: "round_double 690 = Finite 690"
    by (rule round_double_eval [where e = "9"])
       (simp_all add: pow2_def round_half_even_def Let_def)
  have r3: "round_double 230 = Finite 230"
    by (rule round_double_eval [where e = "7"])
       (simp_all add: pow2_def round_half_even_def Let_def)
  show "computed_average 230 230 230 = Finite 230"
    by (simp add: computed_average_def round_double_0 r1 r2 r3)
  show "computed_deviation 230 (Finite 230) = Finite 0"
    by (simp add: computed_deviation_def py_sub_def round_double_0 r1 r2 r3)
qed

lemma phases_spread:
  "computed_average 200 230 260 = Finite 230"
  "computed_deviation 200 (Finite 230) = Finite (7342825479408417 / 562949953421312)"
  "computed_deviation 230 (Finite 230) = Finite 0"
  "computed_deviation 260 (Finite 230) = Finite (7342825479408417 / 562949953421312)"
proof -
  have r1: "round_double 430 = Finite 430"
    by (rule round_double_eval [where e = "8"])
       (simp_all add: pow2_def round_half_even_def Let_def)
  have r2: "round_double 690 = Finite 690"
    by (rule round_double_eval [where e = "9"])
       (simp_all add: pow2_def round_half_even_def Let_def)
  have r3: "round_double 230 = Finite 230"
    by (rule round_double_eval [where e = "7"])
       (simp_all add: pow2_def round_half_even_def Let_def)
  have r4: "round_double (- 30) = Finite (- 30)"
    by (rule round_double_eval [where e = "4"])
       (simp_all add: pow2_def round_half_even_def Let_def)
  have r5: "round_double (- (3 / 23)) = Finite (- (4699408306821387 / 36028797018963968))"
    by (rule round_double_eval [where e = "- 3"])
       (simp_all add: pow2_def round_half_even_def Let_def)
  have r6: "round_double (117485207670534675 / 9007199254740992) = Finite (7342825479408417 / 562949953421312)"
    by (rule round_double_eval [where e = "3"])
       (simp_all add: pow2_def round_half_even_def Let_def)
  have r7: "round_double 30 = Finite 30"
    by (rule round_double_eval [where e = "4"])
       (simp_all add: pow2_def round_half_even_def Let_def)
  have r8: "round_double (3 / 23) = Finite (4699408306821387 / 36028797018963968)"
    by (rule round_double_eval [where e = "- 3"])
       (simp_all add: pow2_def round_half_even_def Let_def)
  show "computed_average 200 230 260 = Finite 230"
    by (simp add: computed_average_def round_double_0 r1 r2 r3 r4 r5 r6 r7 r8)
  show "computed_deviation 200 (Finite 230) = Finite (7342825479408417 / 562949953421312)"
    by (simp add: computed_deviation_def py_sub_def round_double_0 r1 r2 r3 r4 r5 r6 r7 r8)
  show "computed_deviation 230 (Finite 230) = Finite 0"
    by (simp add: computed_deviation_def py_sub_def round_double_0 r1 r2 r3 r4 r5 r6 r7 r8)
  show "computed_deviation 260 (Finite 230) = Finite (7342825479408417 / 562949953421312)"
    by (simp add: computed_deviation_def py_sub_def round_double_0 r1 r2 r3 r4 r5 r6 r7 r8)
qed

lemma phases_sample:
  "computed_average (461 / 2) (1149 / 5) (1151 / 5) = Finite (8098269642446165 / 35184372088832)"
  "computed_deviation (461 / 2) (Finite (8098269642446165 / 35184372088832)) = Finite (1304445945654055 / 9007199254740992)"
  "computed_deviation (1149 / 5) (Finite (8098269642446165 / 35184372088832)) = Finite (2869781080438765 / 18014398509481984)"
  "computed_deviation (1151 / 5) (Finite (8098269642446165 / 35184372088832)) = Finite (4174227026094043 / 288230376151711744)"
proof -
  have r1: "round_double (4603 / 10) = Finite (8097683236244685 / 17592186044416)"
    by (rule round_double_eval [where e = "8"])
       (simp_all add: pow2_def round_half_even_def Let_def)
  have r2: "round_double (60737022318346241 / 87960930222080) = Finite (1381 / 2)"
    by (rule round_double_eval [where e = "9"])
       (simp_all add: pow2_def round_half_even_def Let_def)
  have r3: "round_double (1381 / 6) = Finite (8098269642446165 / 35184372088832)"
    by (rule round_double_eval [where e = "7"])
       (simp_all add: pow2_def round_half_even_def Let_def)
  have r4: "round_double (11728124029611 / 35184372088832) = Finite (11728124029611 / 35184372088832)"
    by (rule round_double_eval [where e = "- 2"])
       (simp_all add: pow2_def round_half_even_def Let_def)
  have r5: "round_double (11728124029611 / 8098269642446165) = Finite (6678763241748761 / 4611686018427387904)"
    by (rule round_double_eval [where e = "- 10"])
       (simp_all add: pow2_def round_half_even_def Let_def)
  have r6: "round_double (166969081043719025 / 1152921504606846976) = Finite (1304445945654055 / 9007199254740992)"
    by (rule round_double_eval [where e = "- 3"])
       (simp_all add: pow2_def round_half_even_def Let_def)
  have r7: "round_double (- (64504682162857 / 175921860444160)) = Finite (- (6605279453476557 / 18014398509481984))"
    by (rule round_double_eval [where e = "- 2"])
       (simp_all add: pow2_def round_half_even_def Let_def)
  have r8: "round_double (- (943611350496651 / 592330579561776640)) = Finite (- (3673319782961619 / 2305843009213693952))"
    by (rule round_double_eval [where e = "- 10"])
       (simp_all add: pow2_def round_half_even_def Let_def)
  have r9: "round_double (91832994574040475 / 576460752303423488) = Finite (2869781080438765 / 18014398509481984)"
    by (rule round_double_eval [where e = "- 3"])
       (simp_all add: pow2_def round_half_even_def Let_def)
  have r10: "round_double (5864062014807 / 175921860444160) = Finite (2401919801264947 / 72057594037927936)"
    by (rule round_double_eval [where e = "- 5"])
       (simp_all add: pow2_def round_half_even_def Let_def)
  have r11: "round_double (2401919801264947 / 16585256227729745920) = Finite (5343010593400375 / 36893488147419103232)"
    by (rule round_double_eval [where e = "- 13"])
       (simp_all add: pow2_def round_half_even_def Let_def)
  have r12: "round_double (133575264835009375 / 9223372036854775808) = Finite (4174227026094043 / 288230376151711744)"
    by (rule round_double_eval [where e = "- 7"])
       (simp_all add: pow2_def round_half_even_def Let_def)
  show "computed_average (461 / 2) (1149 / 5) (1151 / 5) = Finite (8098269642446165 / 35184372088832)"
    by (simp add: computed_average_def round_double_0 r1 r2 r3 r4 r5 r6 r7 r8 r9 r10 r11 r12)
  show "computed_deviation (461 / 2) (Finite (8098269642446165 / 35184372088832)) = Finite (1304445945654055 / 9007199254740992)"
    by (simp add: computed_deviation_def py_sub_def round_double_0 r1 r2 r3 r4 r5 r6 r7 r8 r9 r10 r11 r12)
  show "computed_deviation (1149 / 5) (Finite (8098269642446165 / 35184372088832)) = Finite (2869781080438765 / 18014398509481984)"
    by (simp add: computed_deviation_def py_sub_def round_double_0 r1 r2 r3 r4 r5 r6 r7 r8 r9 r10 r11 r12)
  show "computed_deviation (1151 / 5) (Finite (8098269642446165 / 35184372088832)) = Finite (4174227026094043 / 288230376151711744)"
    by (simp add: computed_deviation_def py_sub_def round_double_0 r1 r2 r3 r4 r5 r6 r7 r8 r9 r10 r11 r12)
qed

lemma phases_nominal:
  "computed_average 229 230 231 = Finite 230"
  "computed_deviation 229 (Finite 230) = Finite (7832347178035645 / 18014398509481984)"
  "computed_deviation 230 (Finite 230) = Finite 0"
  "computed_deviation 231 (Finite 230) = Finite (7832347178035645 / 18014398509481984)"
proof -
  have r1: "round_double 459 = Finite 459"
    by (rule round_double_eval [where e = "8"])
       (simp_all add: pow2_def round_half_even_def Let_def)
  have r2: "round_double 690 = Finite 690"
    by (rule round_double_eval [where e = "9"])
       (simp_all add: pow2_def round_half_even_def Let_def)
  have r3: "round_double 230 = Finite 230"
    by (rule round_double_eval [where e = "7"])
       (simp_all add: pow2_def round_half_even_def Let_def)
  have r4: "round_double (- 1) = Finite (- 1)"
    by (rule round_double_eval [where e = "0"])
       (simp_all add: pow2_def round_half_even_def Let_def)
  have r5: "round_double (- (1 / 230)) = Finite (- (5012702193942813 / 1152921504606846976))"
    by (rule round_double_eval [where e = "- 8"])
       (simp_all add: pow2_def round_half_even_def Let_def)
  have r6: "round_double (125317554848570325 / 288230376151711744) = Finite (7832347178035645 / 18014398509481984)"
    by (rule round_double_eval [where e = "- 2"])
       (simp_all add: pow2_def round_half_even_def Let_def)
  have r7: "round_double 1 = Finite 1"
    by (rule round_double_eval [where e = "0"])
       (simp_all add: pow2_def round_half_even_def Let_def)
  have r8: "round_double (1 / 230) = Finite (5012702193942813 / 1152921504606846976)"
    by (rule round_double_eval [where e = "- 8"])
       (simp_all add: pow2_def round_half_even_def Let_def)
  show "computed_average 229 230 231 = Finite 230"
    by (simp add: computed_average_def round_double_0 r1 r2 r3 r4 r5 r6 r7 r8)
  show "computed_deviation 229 (Finite 230) = Finite (7832347178035645 / 18014398509481984)"
    by (simp add: computed_deviation_def py_sub_def round_double_0 r1 r2 r3 r4 r5 r6 r7 r8)
  show "computed_deviation 230 (Finite 230) = Finite 0"
    by (simp add: computed_deviation_def py_sub_def round_double_0 r1 r2 r3 r4 r5 r6 r7 r8)
  show "computed_deviation 231 (Finite 230) = Finite (7832347178035645 / 18014398509481984)"
    by (simp add: computed_deviation_def py_sub_def round_double_0 r1 r2 r3 r4 r5 r6 r7 r8)
qed

lemma phases_zero_average:
  "computed_average 100 (- 50) (- 50) = Finite 0"
proof -
  have r1: "round_double 50 = Finite 50"
    by (rule round_double_eval [where e = "5"])
       (simp_all add: pow2_def round_half_even_def Let_def)
  show "computed_average 100 (- 50) (- 50) = Finite 0"
    by (simp add: computed_average_def round_double_0 r1)
qed

subsection \<open>What the diagnosis returns\<close>

lemma fst_note_fault: "fst (note_fault fo d acc) = fst acc @ fault_list fo"
  by (simp add: note_fault_def fault_list_def split: option.split)

lemma check_phase_imbalance_eq:
  "check_phase_imbalance va vb vc =
     Inr (if imbalance_fires va vb vc then Some PHASE_IMBALANCE else None)"
proof -
  define avg where "avg = computed_average va vb vc"
  have avg: "py_truediv (py_add (py_add (Finite va) (Finite vb)) (Finite vc)) (Finite 3) = Inr avg"
    by (simp add: py_truediv_def avg_def computed_average_def)
  show ?thesis
  proof (cases "avg = Finite 0")
    case True
    then show ?thesis
      unfolding check_phase_imbalance_def avg imbalance_fires_def Let_def avg_def [symmetric]
      by simp
  next
    case False
    then have q: "py_truediv x avg = Inr (float_div x avg)" for x
      by (simp add: py_truediv_def)
    from False show ?thesis
      unfolding check_phase_imbalance_def avg imbalance_fires_def Let_def avg_def [symmetric]
        PHASE_IMBALANCE_MAX_def computed_deviation_def
      by (simp add: q)
  qed
qed

lemma diagnose_faults:
  "\<exists>ds. diagnose r =
     Inr \<lparr> primary_fault = fault_value (case triggered r of [] \<Rightarrow> NONE | f # _ \<Rightarrow> f),
           all_faults = map fault_value (triggered r),
           severity = calculate_severity r (triggered r),
           confidence = calculate_confidence r,
           details = ds,
           action = recommend_action (case triggered r of [] \<Rightarrow> NONE | f # _ \<Rightarrow> f) \<rparr>"
proof -
  have "fst (note_fault (check_temperature (temperature r)) d6
          (note_fault (if imbalance_fires (phase_a r) (phase_b r) (phase_c r) then Some PHASE_IMBALANCE else None) d5
          (note_fault (check_power_factor (power_factor r)) d4
          (note_fault (check_frequency (frequency r)) d3
          (note_fault (check_current (current r)) d2
          (note_fault (check_voltage (voltage r)) d1 ([], []))))))) = triggered r"
    for d1 d2 d3 d4 d5 d6
    by (simp add: fst_note_fault fault_list_def triggered_def checks thresholds)
  then show ?thesis
    by (simp add: diagnose_def check_phase_imbalance_eq Let_def)
qed

lemma diagnose_fields:
  "\<exists>res. diagnose r = Inr res
     \<and> all_faults res = map fault_value (triggered r)
     \<and> primary_fault res = fault_value (case triggered r of [] \<Rightarrow> NONE | f # _ \<Rightarrow> f)
     \<and> severity res = calculate_severity r (triggered r)
     \<and> confidence res = calculate_confidence r"
proof -
  obtain ds where "diagnose r =
     Inr \<lparr> primary_fault = fault_value (case triggered r of [] \<Rightarrow> NONE | f # _ \<Rightarrow> f),
           all_faults = map fault_value (triggered r),
           severity = calculate_severity r (triggered r),
           confidence = calculate_confidence r,
           details = ds,
           action = recommend_action (case triggered r of [] \<Rightarrow> NONE | f # _ \<Rightarrow> f) \<rparr>"
    using diagnose_faults by blast
  then show ?thesis by simp
qed

lemma NONE_not_triggered: "NONE \<notin> set (triggered r)"
  by (simp add: triggered_def)

lemma severity_scan_strings:
  "severity_scan fs = spec_first_in_table (map fault_value fs)"
proof (induction fs)
  case Nil
  show ?case by simp
next
  case (Cons f fs)
  then show ?case
    by (cases f) (simp_all add: severity_map_def spec_priority_table_def)
qed

lemma calculate_severity_strings:
  "calculate_severity r (triggered r) = entries_severity (map fault_value (triggered r))"
  by (simp add: calculate_severity_def entries_severity_def NONE_not_triggered
      severity_scan_strings)

lemma calculate_confidence_spec:
  "calculate_confidence r = spec_confidence (voltage r) (current r) (power_factor r)"
  by (simp add: calculate_confidence_def spec_confidence_def thresholds Let_def)

lemma round_half_even_error: "\<bar>of_int (round_half_even t) - t\<bar> \<le> 1 / 2"
proof -
  have "of_int \<lfloor>t\<rfloor> \<le> t" "t < of_int \<lfloor>t\<rfloor> + 1" by linarith+
  then show ?thesis
    by (auto simp: round_half_even_def Let_def abs_le_iff)
qed

lemma pow2_add: "pow2 (a + b) = pow2 a * pow2 b"
  by (simp add: pow2_powr powr_add)

lemma pow2_less: "e1 < e2 \<Longrightarrow> pow2 e1 < pow2 e2"
  by (simp add: pow2_powr)

lemma search_exponent_spec:
  "x < pow2 (e0 + 1) \<Longrightarrow>
     e0 - int n \<le> search_exponent n e0 x \<and> search_exponent n e0 x \<le> e0
     \<and> x < pow2 (search_exponent n e0 x + 1)
     \<and> (e0 - int n < search_exponent n e0 x \<longrightarrow> pow2 (search_exponent n e0 x) \<le> x)"
proof (induction n arbitrary: e0)
  case 0
  then show ?case by simp
next
  case (Suc n)
  show ?case
  proof (cases "pow2 e0 \<le> x")
    case True
    with Suc.prems show ?thesis by simp
  next
    case False
    then have "x < pow2 (e0 - 1 + 1)" by simp
    from Suc.IH [OF this] False show ?thesis by (simp add: algebra_simps)
  qed
qed

lemma double_exponent_spec:
  assumes "\<bar>x\<bar> < pow2 1024"
  shows "- 1022 \<le> double_exponent x" and "double_exponent x \<le> 1023"
    and "\<bar>x\<bar> < pow2 (double_exponent x + 1)"
    and "- 1022 < double_exponent x \<Longrightarrow> pow2 (double_exponent x) \<le> \<bar>x\<bar>"
  using search_exponent_spec [of "\<bar>x\<bar>" 1023 2045] assms
  by (simp_all add: double_exponent_def)


lemma round_double_error:
  assumes "\<bar>x\<bar> \<le> 2 ^ 1000"
  shows "\<exists>y. round_double x = Finite y \<and> \<bar>y - x\<bar> \<le> \<bar>x\<bar> / 2 ^ 53 + 1 / 2 ^ 1075"
proof -
  define e where "e = double_exponent x"
  define q where "q = pow2 (e - 52)"
  define y where "y = of_int (round_half_even (x / q)) * q"
  have p1000: "pow2 1000 = 2 ^ 1000" by (simp add: pow2_def)
  have "pow2 1000 < pow2 1024" by (rule pow2_less) simp
  with assms p1000 have lt: "\<bar>x\<bar> < pow2 1024" by simp
  note sp = double_exponent_spec [OF lt, folded e_def]
  have qpos: "0 < q" by (simp add: q_def pow2_pos)
  have "y - x = (of_int (round_half_even (x / q)) - x / q) * q"
    using qpos by (simp add: y_def field_simps)
  then have "\<bar>y - x\<bar> = \<bar>of_int (round_half_even (x / q)) - x / q\<bar> * q"
    using qpos by (simp add: abs_mult)
  also have "\<dots> \<le> 1 / 2 * q"
    using round_half_even_error [of "x / q"] qpos by (intro mult_right_mono) simp_all
  finally have err: "\<bar>y - x\<bar> \<le> q / 2" by simp
  have half: "q / 2 = pow2 (e - 53)"
  proof -
    have "pow2 (e - 52) = pow2 (e - 53 + 1)" by simp
    also have "\<dots> = pow2 (e - 53) * pow2 1" by (rule pow2_add)
    finally show ?thesis by (simp add: q_def pow2_def)
  qed
  have bound: "q / 2 \<le> \<bar>x\<bar> / 2 ^ 53 + 1 / 2 ^ 1075"
  proof (cases "- 1022 < e")
    case True
    then have "pow2 e \<le> \<bar>x\<bar>" by (rule sp(4))
    moreover have "pow2 e = pow2 (e - 53 + 53)" by simp
    then have "pow2 e = pow2 (e - 53) * 2 ^ 53"
      unfolding pow2_add by (simp add: pow2_def)
    ultimately have "pow2 (e - 53) \<le> \<bar>x\<bar> / 2 ^ 53"
      by (simp add: pos_le_divide_eq)
    then show ?thesis unfolding half by simp
  next
    case False
    with sp(1) have "e = - 1022" by simp
    then have "pow2 (e - 53) = 1 / 2 ^ 1075" by (simp add: pow2_def)
    then show ?thesis unfolding half by simp
  qed
  have "\<bar>y\<bar> \<le> \<bar>x\<bar> + \<bar>y - x\<bar>" by simp
  also have "\<dots> \<le> \<bar>x\<bar> + (\<bar>x\<bar> / 2 ^ 53 + 1 / 2 ^ 1075)" using err bound by simp
  also have "\<dots> \<le> 2 ^ 1000 + (2 ^ 1000 / 2 ^ 53 + 1 / 2 ^ 1075)"
    using assms by (intro add_mono divide_right_mono) simp_all
  also have "\<dots> < pow2 1024" by (simp add: pow2_def)
  finally have fin: "\<bar>y\<bar> < pow2 1024" .
  then have "\<not> pow2 1024 \<le> y" and "\<not> y \<le> - pow2 1024" by linarith+
  then have "round_double x = Finite y"
    unfolding round_double_def Let_def e_def [symmetric] q_def [symmetric] y_def [symmetric]
    by simp
  with err bound show ?thesis by auto
qed

lemma round_double_close:
  assumes "\<bar>x\<bar> \<le> 1000000000"
  shows "\<exists>y. round_double x = Finite y
           \<and> \<bar>y - x\<bar> \<le> \<bar>x\<bar> / 1000000000000000 + 1 / 1000000000000000"
proof -
  have "(1000000000::real) \<le> 2 ^ 1000" by simp
  with assms have "\<bar>x\<bar> \<le> 2 ^ 1000" by linarith
  then obtain y where y: "round_double x = Finite y"
    "\<bar>y - x\<bar> \<le> \<bar>x\<bar> / 2 ^ 53 + 1 / 2 ^ 1075"
    using round_double_error by blast
  have "\<bar>x\<bar> / 2 ^ 53 \<le> \<bar>x\<bar> / 1000000000000000"
    by (intro divide_left_mono) simp_all
  moreover have "(1::real) / 2 ^ 1075 \<le> 1 / 1000000000000000" by simp
  ultimately have "\<bar>y - x\<bar> \<le> \<bar>x\<bar> / 1000000000000000 + 1 / 1000000000000000"
    using y(2) by linarith
  with y(1) show ?thesis by blast
qed

lemma computed_average_close:
  fixes va vb vc A :: real
  assumes A: "A = (va + vb + vc) / 3" and lo: "1 \<le> A" and hi: "A \<le> 1000000"
    and a: "\<bar>va - A\<bar> \<le> 49 / 1000 * A"
    and b: "\<bar>vb - A\<bar> \<le> 49 / 1000 * A"
    and c: "\<bar>vc - A\<bar> \<le> 49 / 1000 * A"
  shows "\<exists>avg. computed_average va vb vc = Finite avg \<and> \<bar>avg - A\<bar> \<le> A / 1000000000"
proof -
  have t1: "\<bar>va + vb\<bar> \<le> 1000000000" "\<bar>va + vb\<bar> \<le> 3 * A"
    using a b lo hi by argo+
  obtain s1 where s1: "round_double (va + vb) = Finite s1"
    "\<bar>s1 - (va + vb)\<bar> \<le> \<bar>va + vb\<bar> / 1000000000000000 + 1 / 1000000000000000"
    using round_double_close [OF t1(1)] by blast
  have e1: "\<bar>s1 - (va + vb)\<bar> \<le> 4 * A / 1000000000000000"
    using s1(2) t1(2) lo by argo
  have t2: "\<bar>s1 + vc\<bar> \<le> 1000000000" "\<bar>s1 + vc\<bar> \<le> 4 * A"
    using e1 A a b c lo hi by argo+
  obtain s2 where s2: "round_double (s1 + vc) = Finite s2"
    "\<bar>s2 - (s1 + vc)\<bar> \<le> \<bar>s1 + vc\<bar> / 1000000000000000 + 1 / 1000000000000000"
    using round_double_close [OF t2(1)] by blast
  have e2: "\<bar>s2 - 3 * A\<bar> \<le> 9 * A / 1000000000000000"
    using s2(2) t2(2) e1 A lo by argo
  have t3: "\<bar>s2 / 3\<bar> \<le> 1000000000" "\<bar>s2 / 3\<bar> \<le> 2 * A"
    using e2 lo hi by argo+
  obtain avg where avg: "round_double (s2 / 3) = Finite avg"
    "\<bar>avg - s2 / 3\<bar> \<le> \<bar>s2 / 3\<bar> / 1000000000000000 + 1 / 1000000000000000"
    using round_double_close [OF t3(1)] by blast
  have "\<bar>avg - A\<bar> \<le> A / 1000000000"
    using avg(2) t3(2) e2 lo by argo
  moreover have "computed_average va vb vc = Finite avg"
    by (simp add: computed_average_def s1(1) s2(1) avg(1))
  ultimately show ?thesis by blast
qed

lemma computed_deviation_small:
  fixes v avg A :: real
  assumes lo: "1 \<le> A" and hi: "A \<le> 1000000"
    and avg: "\<bar>avg - A\<bar> \<le> A / 1000000000"
    and v: "\<bar>v - A\<bar> \<le> 49 / 1000 * A"
  shows "\<exists>p. computed_deviation v (Finite avg) = Finite p \<and> p \<le> 495 / 100"
proof -
  have d0: "\<bar>v - avg\<bar> \<le> 1000000000" "\<bar>v - avg\<bar> \<le> 491 / 10000 * A"
    using avg v lo hi by argo+
  obtain d where d: "round_double (v - avg) = Finite d"
    "\<bar>d - (v - avg)\<bar> \<le> \<bar>v - avg\<bar> / 1000000000000000 + 1 / 1000000000000000"
    using round_double_close [OF d0(1)] by blast
  have d1: "\<bar>d\<bar> \<le> 492 / 10000 * A"
    using d(2) d0(2) lo by argo
  have apos: "0 < avg" and alow: "999 / 1000 * A \<le> avg" using avg lo by argo+
  have "\<bar>d\<bar> \<le> 493 / 10000 * avg" using d1 alow lo by argo
  then have r0: "\<bar>d / avg\<bar> \<le> 493 / 10000"
    using apos by (simp add: abs_divide pos_divide_le_eq)
  then have "\<bar>d / avg\<bar> \<le> 1000000000" by argo
  then obtain q where q: "round_double (d / avg) = Finite q"
    "\<bar>q - d / avg\<bar> \<le> \<bar>d / avg\<bar> / 1000000000000000 + 1 / 1000000000000000"
    using round_double_close by blast
  have q1: "\<bar>q\<bar> \<le> 494 / 10000"
    using q(2) r0 by argo
  then have m0: "\<bar>\<bar>q\<bar> * 100\<bar> \<le> 1000000000" "\<bar>\<bar>q\<bar> * 100\<bar> \<le> 494 / 100"
    by argo+
  obtain p where p: "round_double (\<bar>q\<bar> * 100) = Finite p"
    "\<bar>p - \<bar>q\<bar> * 100\<bar> \<le> \<bar>\<bar>q\<bar> * 100\<bar> / 1000000000000000 + 1 / 1000000000000000"
    using round_double_close [OF m0(1)] by blast
  have "p \<le> 495 / 100"
    using p(2) m0(2) by argo
  moreover have "avg \<noteq> 0" using apos by simp
  then have "computed_deviation v (Finite avg) = Finite p"
    by (simp add: computed_deviation_def py_sub_def d(1) q(1) p(1))
  ultimately show ?thesis by blast
qed

text \<open>
  A sufficient condition in exact arithmetic: when the average of the three phase
  voltages lies between 1 and 1000000 and every phase voltage is within 4.9 percent of
  it, every deviation the check computes is at most 4.95, hence not above 5.
\<close>

lemma margin_computed_within:
  fixes va vb vc :: real
  assumes "1 \<le> (va + vb + vc) / 3" and "(va + vb + vc) / 3 \<le> 1000000"
    and "\<bar>va - (va + vb + vc) / 3\<bar> \<le> 49 / 1000 * ((va + vb + vc) / 3)"
    and "\<bar>vb - (va + vb + vc) / 3\<bar> \<le> 49 / 1000 * ((va + vb + vc) / 3)"
    and "\<bar>vc - (va + vb + vc) / 3\<bar> \<le> 49 / 1000 * ((va + vb + vc) / 3)"
  shows "computed_within_5_percent va (computed_average va vb vc)"
    and "computed_within_5_percent vb (computed_average va vb vc)"
    and "computed_within_5_percent vc (computed_average va vb vc)"
proof -
  define A where "A = (va + vb + vc) / 3"
  note h = assms [folded A_def]
  obtain avg where avg: "computed_average va vb vc = Finite avg" "\<bar>avg - A\<bar> \<le> A / 1000000000"
    using computed_average_close [OF A_def h] by blast
  have w: "computed_within_5_percent v (Finite avg)" if vA: "\<bar>v - A\<bar> \<le> 49 / 1000 * A" for v
  proof -
    obtain p where "computed_deviation v (Finite avg) = Finite p" "p \<le> 495 / 100"
      using computed_deviation_small [OF h(1,2) avg(2) vA] by blast
    then show ?thesis by (simp add: computed_within_5_percent_def)
  qed
  show "computed_within_5_percent va (computed_average va vb vc)"
    unfolding avg(1) using h(3) by (rule w)
  show "computed_within_5_percent vb (computed_average va vb vc)"
    unfolding avg(1) using h(4) by (rule w)
  show "computed_within_5_percent vc (computed_average va vb vc)"
    unfolding avg(1) using h(5) by (rule w)
qed

lemma computed_within_not_fires:
  assumes "computed_within_5_percent va (computed_average va vb vc)"
    and "computed_within_5_percent vb (computed_average va vb vc)"
    and "computed_within_5_percent vc (computed_average va vb vc)"
  shows "\<not> imbalance_fires va vb vc"
  using assms
  by (simp add: imbalance_fires_def computed_within_5_percent_def py_max_def Let_def)

lemma zero_average_not_fires:
  assumes "is_double vc" and "va + vb + vc = 0"
  shows "computed_average va vb vc = Finite 0"
proof -
  from assms(2) have "va + vb = - vc" by simp
  moreover from assms(1) have "round_double (- vc) = Finite (- vc)"
    using is_double_minus [of vc] by (simp add: is_double_def)
  ultimately show ?thesis
    by (simp add: computed_average_def round_double_0)
qed

subsection \<open>Severity\<close>

text \<open>
  C1 (as stated in the specification, refuted). With voltage 260, current 35 and
  temperature 90 the fault list is Overvoltage, Overcurrent, Overcurrent: two distinct
  faults in three entries. The diagnosis answers Critical, where the rule for three or
  more distinct faults does not apply and the priority table gives High.
\<close>

theorem severity_distinct_counterexample:
  "diagnose reading_repeated =
     Inr \<lparr> primary_fault = ''Overvoltage'',
           all_faults = [''Overvoltage'', ''Overcurrent'', ''Overcurrent''],
           severity = ''Critical'',
           confidence = 100,
           details = [VoltageDetail 260 200 250, CurrentDetail 35 30, TemperatureDetail 90 80],
           action = ''Check voltage regulator and power supply settings.'' \<rparr>
   \<and> remdups [''Overvoltage'', ''Overcurrent'', ''Overcurrent''] = [''Overvoltage'', ''Overcurrent'']
   \<and> spec_severity [''Overvoltage'', ''Overcurrent'', ''Overcurrent''] = ''High''"
  by (simp add: diagnose_def reading_repeated_def checks thresholds note_fault_def
      check_phase_imbalance_eq imbalance_fires_def phases_equal py_max_def calculate_severity_def
      calculate_confidence_def Let_def spec_severity_def spec_priority_table_def)

text \<open>
  C1 (amended). For every reading the diagnosis returns, and its severity is None when
  the fault list is empty, Critical when the list has three or more entries (an entry
  that occurs twice counts twice), and otherwise the table's severity for the first
  listed fault found in the table, Medium when none is.
\<close>

theorem severity_by_entries:
  "\<exists>res. diagnose r = Inr res \<and> severity res = entries_severity (all_faults res)"
proof -
  obtain ds where "diagnose r =
     Inr \<lparr> primary_fault = fault_value (case triggered r of [] \<Rightarrow> NONE | f # _ \<Rightarrow> f),
           all_faults = map fault_value (triggered r),
           severity = calculate_severity r (triggered r),
           confidence = calculate_confidence r,
           details = ds,
           action = recommend_action (case triggered r of [] \<Rightarrow> NONE | f # _ \<Rightarrow> f) \<rparr>"
    using diagnose_faults by blast
  then show ?thesis
    by (simp add: calculate_severity_strings)
qed

subsection \<open>Nominal readings\<close>

text \<open>
  C2 (as stated in the specification, refuted). The reading with voltage 230, current 15,
  frequency 50, power factor 1, temperature 40 and phase voltages 200, 203 and 217 has
  every field a double and every field in its nominal range, and each phase voltage is
  within 5 percent of the average 620/3 (the third exactly 5 percent away). In double
  arithmetic the check computes a deviation just above 5 for the third phase, and the
  diagnosis is Phase Imbalance with severity Medium.
\<close>

theorem nominal_exact_counterexample:
  "is_double (voltage reading_boundary) \<and> is_double (current reading_boundary)
   \<and> is_double (frequency reading_boundary) \<and> is_double (power_factor reading_boundary)
   \<and> is_double (phase_a reading_boundary) \<and> is_double (phase_b reading_boundary)
   \<and> is_double (phase_c reading_boundary) \<and> is_double (temperature reading_boundary)
   \<and> 200 \<le> voltage reading_boundary \<and> voltage reading_boundary \<le> 250
   \<and> current reading_boundary \<le> 30
   \<and> 48 \<le> frequency reading_boundary \<and> frequency reading_boundary \<le> 52
   \<and> 85 / 100 \<le> power_factor reading_boundary
   \<and> within_5_percent (phase_a reading_boundary) (phase_average reading_boundary)
   \<and> within_5_percent (phase_b reading_boundary) (phase_average reading_boundary)
   \<and> within_5_percent (phase_c reading_boundary) (phase_average reading_boundary)
   \<and> temperature reading_boundary \<le> 80
   \<and> diagnose reading_boundary =
       Inr \<lparr> primary_fault = ''Phase Imbalance'',
             all_faults = [''Phase Imbalance''],
             severity = ''Medium'',
             confidence = 100,
             details = [PhaseImbalanceDetail 200 203 217],
             action = ''Check load distribution across phases and rebalance if necessary.'' \<rparr>"
proof -
  have "diagnose reading_boundary =
       Inr \<lparr> primary_fault = ''Phase Imbalance'',
             all_faults = [''Phase Imbalance''],
             severity = ''Medium'',
             confidence = 100,
             details = [PhaseImbalanceDetail 200 203 217],
             action = ''Check load distribution across phases and rebalance if necessary.'' \<rparr>"
    by (simp add: diagnose_def reading_boundary_def checks thresholds note_fault_def
      check_phase_imbalance_eq imbalance_fires_def phases_boundary py_max_def
      calculate_severity_def severity_map_def calculate_confidence_def Let_def)
  then show ?thesis
    by (simp add: reading_boundary_def doubles_used within_5_percent_def phase_average_def)
qed

text \<open>
  C2 (amended). A reading with voltage in [200, 250], current at most 30, frequency in
  [48, 52], power factor at least 0.85, temperature at most 80, and for every phase
  voltage a deviation from the three-phase average that, computed in double arithmetic
  as the check computes it, is not above 5 percent, is diagnosed as No Fault, severity
  None, with an empty fault list.
\<close>

theorem nominal_no_fault:
  assumes "200 \<le> voltage r" and "voltage r \<le> 250"
    and "current r \<le> 30"
    and "48 \<le> frequency r" and "frequency r \<le> 52"
    and "85 / 100 \<le> power_factor r"
    and "computed_within_5_percent (phase_a r)
           (computed_average (phase_a r) (phase_b r) (phase_c r))"
    and "computed_within_5_percent (phase_b r)
           (computed_average (phase_a r) (phase_b r) (phase_c r))"
    and "computed_within_5_percent (phase_c r)
           (computed_average (phase_a r) (phase_b r) (phase_c r))"
    and "temperature r \<le> 80"
  shows "\<exists>res. diagnose r = Inr res \<and> primary_fault res = ''No Fault''
           \<and> severity res = ''None'' \<and> all_faults res = []"
proof -
  have "\<not> imbalance_fires (phase_a r) (phase_b r) (phase_c r)"
    using assms(7-9) by (rule computed_within_not_fires)
  with assms have "triggered r = []"
    by (simp add: triggered_def)
  with diagnose_fields [of r] show ?thesis
    by (auto simp: calculate_severity_def)
qed

theorem nominal_no_fault_witness:
  "is_double (phase_a reading_nominal) \<and> is_double (phase_b reading_nominal)
   \<and> is_double (phase_c reading_nominal)
   \<and> 200 \<le> voltage reading_nominal \<and> voltage reading_nominal \<le> 250
   \<and> current reading_nominal \<le> 30
   \<and> 48 \<le> frequency reading_nominal \<and> frequency reading_nominal \<le> 52
   \<and> 85 / 100 \<le> power_factor reading_nominal
   \<and> computed_within_5_percent (phase_a reading_nominal)
        (computed_average (phase_a reading_nominal) (phase_b reading_nominal)
           (phase_c reading_nominal))
   \<and> computed_within_5_percent (phase_b reading_nominal)
        (computed_average (phase_a reading_nominal) (phase_b reading_nominal)
           (phase_c reading_nominal))
   \<and> computed_within_5_percent (phase_c reading_nominal)
        (computed_average (phase_a reading_nominal) (phase_b reading_nominal)
           (phase_c reading_nominal))
   \<and> temperature reading_nominal \<le> 80
   \<and> (\<exists>res. diagnose reading_nominal = Inr res \<and> primary_fault res = ''No Fault''
           \<and> severity res = ''None'' \<and> all_faults res = [])"
proof -
  have h: "200 \<le> voltage reading_nominal" "voltage reading_nominal \<le> 250"
    "current reading_nominal \<le> 30"
    "48 \<le> frequency reading_nominal" "frequency reading_nominal \<le> 52"
    "85 / 100 \<le> power_factor reading_nominal"
    "computed_within_5_percent (phase_a reading_nominal)
        (computed_average (phase_a reading_nominal) (phase_b reading_nominal)
           (phase_c reading_nominal))"
    "computed_within_5_percent (phase_b reading_nominal)
        (computed_average (phase_a reading_nominal) (phase_b reading_nominal)
           (phase_c reading_nominal))"
    "computed_within_5_percent (phase_c reading_nominal)
        (computed_average (phase_a reading_nominal) (phase_b reading_nominal)
           (phase_c reading_nominal))"
    "temperature reading_nominal \<le> 80"
    by (simp_all add: reading_nominal_def computed_within_5_percent_def phases_nominal)
  have d: "is_double (phase_a reading_nominal)" "is_double (phase_b reading_nominal)"
    "is_double (phase_c reading_nominal)"
    by (simp_all add: reading_nominal_def doubles_used)
  from d h nominal_no_fault [OF h] show ?thesis by blast
qed

subsection \<open>The statistical endpoint\<close>

lemma py_float_int_double: "is_double (of_int i) \<Longrightarrow> py_float str_to_float (JInt i) = Inr (Finite (of_int i))"
  by (simp add: is_double_def)


















subsection \<open>Order of the checks\<close>

text \<open>
  C4. The fault list holds the triggered faults in the order voltage, current,
  frequency, power factor, phase imbalance, temperature; the primary fault is the head
  of the list, or No Fault when the list is empty; a temperature above 80 contributes
  Overcurrent as the last entry.
\<close>

theorem fault_order:
  "\<exists>res. diagnose r = Inr res
     \<and> all_faults res =
         (if voltage r > 250 then [''Overvoltage'']
          else if voltage r < 200 then [''Undervoltage''] else [])
         @ (if current r > 30 then [''Overcurrent''] else [])
         @ (if frequency r < 48 \<or> frequency r > 52 then [''Harmonic Distortion''] else [])
         @ (if power_factor r < 85 / 100 then [''Low Power Factor''] else [])
         @ (if imbalance_fires (phase_a r) (phase_b r) (phase_c r)
            then [''Phase Imbalance''] else [])
         @ (if temperature r > 80 then [''Overcurrent''] else [])
     \<and> primary_fault res = (case all_faults res of [] \<Rightarrow> ''No Fault'' | f # _ \<Rightarrow> f)"
proof -
  obtain res where res: "diagnose r = Inr res"
    "all_faults res = map fault_value (triggered r)"
    "primary_fault res = fault_value (case triggered r of [] \<Rightarrow> NONE | f # _ \<Rightarrow> f)"
    using diagnose_fields by blast
  have "primary_fault res = (case all_faults res of [] \<Rightarrow> ''No Fault'' | f # _ \<Rightarrow> f)"
    unfolding res by (cases "triggered r") simp_all
  moreover have "all_faults res =
         (if voltage r > 250 then [''Overvoltage'']
          else if voltage r < 200 then [''Undervoltage''] else [])
         @ (if current r > 30 then [''Overcurrent''] else [])
         @ (if frequency r < 48 \<or> frequency r > 52 then [''Harmonic Distortion''] else [])
         @ (if power_factor r < 85 / 100 then [''Low Power Factor''] else [])
         @ (if imbalance_fires (phase_a r) (phase_b r) (phase_c r)
            then [''Phase Imbalance''] else [])
         @ (if temperature r > 80 then [''Overcurrent''] else [])"
    unfolding res triggered_def map_append by (simp only: if_distrib [of "map fault_value"] list.map fault_value.simps)
  ultimately show ?thesis using res(1) by blast
qed

subsection \<open>Totality\<close>

text \<open>
  C5. The diagnosis returns a result for every reading. The phase-imbalance check
  returns no fault (and no error) whenever the average it computes is zero; and for
  phase voltages that are doubles with an average of exactly zero the computed average
  is zero too, so the check is skipped.
\<close>

theorem diagnose_total:
  "(\<exists>res. diagnose r = Inr res)
   \<and> (computed_average va vb vc = Finite 0 \<longrightarrow> check_phase_imbalance va vb vc = Inr None)
   \<and> (is_double va \<and> is_double vb \<and> is_double vc \<and> (va + vb + vc) / 3 = 0
        \<longrightarrow> check_phase_imbalance va vb vc = Inr None)"
proof (intro conjI impI)
  show "\<exists>res. diagnose r = Inr res"
    using diagnose_fields [of r] by blast
next
  assume "computed_average va vb vc = Finite 0"
  then show "check_phase_imbalance va vb vc = Inr None"
    by (simp add: check_phase_imbalance_eq imbalance_fires_def)
next
  assume h: "is_double va \<and> is_double vb \<and> is_double vc \<and> (va + vb + vc) / 3 = 0"
  then have "computed_average va vb vc = Finite 0"
    by (intro zero_average_not_fires) simp_all
  then show "check_phase_imbalance va vb vc = Inr None"
    by (simp add: check_phase_imbalance_eq imbalance_fires_def)
qed

theorem diagnose_total_witness:
  "(\<exists>res. diagnose reading_zero_average = Inr res)
   \<and> computed_average 100 (- 50) (- 50) = Finite 0
   \<and> is_double 100 \<and> is_double (- 50)
   \<and> (100 + (- 50) + (- 50)) / 3 = (0::real)
   \<and> check_phase_imbalance 100 (- 50) (- 50) = Inr None"
  using diagnose_total [of reading_zero_average 100 "- 50" "- 50"] doubles_used
    phases_zero_average
  by simp

subsection \<open>Confidence\<close>

text \<open>
  C6. The confidence is 100, less 10 when the voltage is above 375 or below 100, less 10
  when the current is above 45, less 15 when the power factor is below 0.7, clamped to
  [0, 100]; two readings that agree on voltage, current and power factor get the same
  confidence, whatever faults they trigger.
\<close>

theorem confidence_formula:
  assumes "voltage r' = voltage r" and "current r' = current r"
    and "power_factor r' = power_factor r"
  shows "\<exists>res res'. diagnose r = Inr res \<and> diagnose r' = Inr res'
           \<and> confidence res = spec_confidence (voltage r) (current r) (power_factor r)
           \<and> confidence res' = confidence res"
proof -
  obtain res where res: "diagnose r = Inr res" "confidence res = calculate_confidence r"
    using diagnose_fields by blast
  obtain res' where res': "diagnose r' = Inr res'" "confidence res' = calculate_confidence r'"
    using diagnose_fields by blast
  from assms res res' show ?thesis
    by (simp add: calculate_confidence_spec)
qed

theorem confidence_formula_witness:
  "voltage reading_hot = voltage create_sample_reading
   \<and> current reading_hot = current create_sample_reading
   \<and> power_factor reading_hot = power_factor create_sample_reading
   \<and> (\<exists>res res'. diagnose create_sample_reading = Inr res \<and> diagnose reading_hot = Inr res'
           \<and> confidence res = spec_confidence (voltage create_sample_reading)
                (current create_sample_reading) (power_factor create_sample_reading)
           \<and> confidence res' = confidence res
           \<and> all_faults res = []
           \<and> all_faults res' = [''Harmonic Distortion'', ''Phase Imbalance'', ''Overcurrent''])"
proof -
  have h: "voltage reading_hot = voltage create_sample_reading"
    "current reading_hot = current create_sample_reading"
    "power_factor reading_hot = power_factor create_sample_reading"
    by (simp_all add: reading_hot_def create_sample_reading_def)
  obtain res res' where d: "diagnose create_sample_reading = Inr res" "diagnose reading_hot = Inr res'"
    "confidence res = spec_confidence (voltage create_sample_reading)
                (current create_sample_reading) (power_factor create_sample_reading)"
    "confidence res' = confidence res"
    using confidence_formula [OF h] by blast
  have "diagnose create_sample_reading =
     Inr \<lparr> primary_fault = ''No Fault'', all_faults = [], severity = ''None'',
           confidence = 100, details = [], action = ''System operating normally.'' \<rparr>"
    by (simp add: diagnose_def create_sample_reading_def checks thresholds note_fault_def
      check_phase_imbalance_eq imbalance_fires_def phases_sample py_max_def calculate_severity_def
      calculate_confidence_def Let_def)
  with d(1) have "res = \<lparr> primary_fault = ''No Fault'', all_faults = [], severity = ''None'',
           confidence = 100, details = [], action = ''System operating normally.'' \<rparr>"
    by simp
  then have 1: "all_faults res = []" by simp
  have "diagnose reading_hot =
     Inr \<lparr> primary_fault = ''Harmonic Distortion'',
           all_faults = [''Harmonic Distortion'', ''Phase Imbalance'', ''Overcurrent''],
           severity = ''Critical'',
           confidence = 100,
           details = [FrequencyDetail 60 48 52, PhaseImbalanceDetail 200 230 260,
                      TemperatureDetail 90 80],
           action = ''Install harmonic filters or upgrade power quality equipment.'' \<rparr>"
    by (simp add: diagnose_def reading_hot_def checks thresholds note_fault_def
      check_phase_imbalance_eq imbalance_fires_def phases_spread py_max_def calculate_severity_def
      calculate_confidence_def Let_def)
  with d(2) have "res' = \<lparr> primary_fault = ''Harmonic Distortion'',
           all_faults = [''Harmonic Distortion'', ''Phase Imbalance'', ''Overcurrent''],
           severity = ''Critical'',
           confidence = 100,
           details = [FrequencyDetail 60 48 52, PhaseImbalanceDetail 200 230 260,
                      TemperatureDetail 90 80],
           action = ''Install harmonic filters or upgrade power quality equipment.'' \<rparr>"
    by simp
  then have 2: "all_faults res' = [''Harmonic Distortion'', ''Phase Imbalance'', ''Overcurrent'']"
    by simp
  from h d 1 2 show ?thesis by blast
qed

text \<open>
  C10. The confidence of every diagnosis lies between 65 and 100 and equals the
  unclamped difference, so the clamp at 0 never takes effect.
\<close>

theorem confidence_bounds:
  "\<exists>res. diagnose r = Inr res \<and> 65 \<le> confidence res \<and> confidence res \<le> 100
     \<and> confidence res =
         100 - (if voltage r > 375 \<or> voltage r < 100 then 10 else 0)
             - (if current r > 45 then 10 else 0)
             - (if power_factor r < 7 / 10 then 15 else 0)"
proof -
  obtain res where res: "diagnose r = Inr res" "confidence res = calculate_confidence r"
    using diagnose_fields by blast
  have "65 \<le> calculate_confidence r" "calculate_confidence r \<le> 100"
    "calculate_confidence r =
         100 - (if voltage r > 375 \<or> voltage r < 100 then 10 else 0)
             - (if current r > 45 then 10 else 0)
             - (if power_factor r < 7 / 10 then 15 else 0)"
    by (simp_all add: calculate_confidence_def thresholds Let_def)
  with res show ?thesis by simp
qed

subsection \<open>A worked example\<close>

text \<open>
  C7. The reading voltage=260, current=15, frequency=50, power_factor=0.95, all three
  phases 230, temperature=40 is diagnosed as primary fault Overvoltage, severity High,
  confidence 100, with Overvoltage the only entry of the fault list.
\<close>

theorem diagnose_overvoltage_example:
  "diagnose reading_overvoltage =
     Inr \<lparr> primary_fault = ''Overvoltage'',
           all_faults = [''Overvoltage''],
           severity = ''High'',
           confidence = 100,
           details = [VoltageDetail 260 200 250],
           action = ''Check voltage regulator and power supply settings.'' \<rparr>"
  by (simp add: diagnose_def reading_overvoltage_def checks thresholds note_fault_def
      check_phase_imbalance_eq imbalance_fires_def phases_equal py_max_def calculate_severity_def severity_map_def
      calculate_confidence_def Let_def)

subsection \<open>Power quantities\<close>

text \<open>
  C8. The apparent power is the product of voltage and current (2300 for 230 and 10).
  The reactive power is voltage times current times the square root of one minus the
  squared power factor when that square is at most 1 (0 for 230, 10 and power factor 1),
  and the computation fails with ValueError when the square is above 1.
\<close>

theorem power_quantities:
  "calculate_apparent_power v c = v * c
   \<and> calculate_apparent_power 230 10 = 2300
   \<and> calculate_reactive_power v c pf =
       (if pf ^ 2 \<le> 1 then Inr (v * c * sqrt (1 - pf ^ 2)) else Inl ValueError)
   \<and> calculate_reactive_power 230 10 1 = Inr 0"
  by (simp add: calculate_apparent_power_def calculate_reactive_power_def math_sqrt_def
      not_less)

subsection \<open>Overcurrent listed twice\<close>

text \<open>
  C9. A reading with current above 30 and temperature above 80 has Overcurrent exactly
  twice in its fault list, so the list has a repeated entry; its severity is Critical
  exactly when the list has three or more entries, repeated entries counted.
\<close>

theorem overcurrent_twice:
  assumes "current r > 30" and "temperature r > 80"
  shows "\<exists>res. diagnose r = Inr res
           \<and> count_list (all_faults res) ''Overcurrent'' = 2
           \<and> \<not> distinct (all_faults res)
           \<and> (severity res = ''Critical'') = (3 \<le> length (all_faults res))"
proof -
  obtain res where res: "diagnose r = Inr res"
    "all_faults res = map fault_value (triggered r)"
    "severity res = calculate_severity r (triggered r)"
    using diagnose_fields by blast
  from assms have n: "count_list (all_faults res) ''Overcurrent'' = 2"
    unfolding res by (simp add: triggered_def)
  from assms have d: "\<not> distinct (all_faults res)"
    unfolding res by (simp add: triggered_def)
  from assms have "(severity res = ''Critical'') = (3 \<le> length (all_faults res))"
    unfolding res by (simp add: triggered_def calculate_severity_def severity_map_def)
  with res(1) n d show ?thesis by blast
qed

theorem overcurrent_twice_witness:
  "current reading_repeated > 30 \<and> temperature reading_repeated > 80
   \<and> (\<exists>res. diagnose reading_repeated = Inr res
           \<and> count_list (all_faults res) ''Overcurrent'' = 2
           \<and> \<not> distinct (all_faults res)
           \<and> (severity res = ''Critical'') = (3 \<le> length (all_faults res)))"
proof -
  have h: "current reading_repeated > 30" "temperature reading_repeated > 80"
    by (simp_all add: reading_repeated_def)
  from h overcurrent_twice [OF h] show ?thesis by blast
qed

end
